theory Spec2Isabelle
  imports Complex_Main "HOL-Library.Multiset"
begin

section \<open>Values on the wire and errors\<close>

text \<open>
  Request and response bodies are JSON. A number is a rational here (no claim depends on
  floating-point rounding); an instant is an integer count of milliseconds since the epoch.
  A token travels as a string; \<open>JTok\<close> stands for the compact text of a token.
\<close>

record jwt_payload =
  userId :: string
  email :: string
  role :: "string option"
  iat :: "int option"
  exp :: "int option"
  iss :: "string option"
  aud :: "string option"

text \<open>
  The jsonwebtoken library is an external collaborator. A token is modelled symbolically:
  \<open>Signed p k\<close> is a well-formed token with payload \<open>p\<close> whose HMAC signature verifies
  under the key \<open>k\<close> and under no other key; \<open>Malformed s\<close> is any other text \<open>s\<close>.
\<close>

datatype token = Signed jwt_payload string | Malformed string

datatype json =
    JNull
  | JBool bool
  | JNum rat
  | JStr string
  | JTok token
  | JArr "json list"
  | JObj "(string \<times> json) list"

text \<open>
  Everything the code can throw. \<open>ApiError message statusCode\<close> is the class of
  utils/ApiError.ts; the two token errors are jsonwebtoken's; the others are the
  built-in and store errors the handlers can meet.
\<close>

datatype error =
    ApiError string nat
  | JsonWebTokenError string
  | TokenExpiredError string
  | CastError string
  | ValidationError string
  | MongoServerError string
  | RangeError string
  | TypeError string
  | Error string

text \<open>
  \<open>instanceof\<close> for the two classes the middleware tests. In jsonwebtoken,
  TokenExpiredError is declared with
  \<^verbatim>\<open>TokenExpiredError.prototype = Object.create(JsonWebTokenError.prototype)\<close>,
  so an expired-token error is an instance of both classes.
\<close>

fun instanceofTokenExpiredError :: "error \<Rightarrow> bool" where
  "instanceofTokenExpiredError (TokenExpiredError m) = True"
| "instanceofTokenExpiredError e = False"

fun instanceofJsonWebTokenError :: "error \<Rightarrow> bool" where
  "instanceofJsonWebTokenError (JsonWebTokenError m) = True"
| "instanceofJsonWebTokenError (TokenExpiredError m) = True"
| "instanceofJsonWebTokenError e = False"

text \<open>
  A handler either writes a response (status, JSON body) or passes an error to
  \<open>next\<close> (a throw inside \<open>asyncHandler\<close>, or an explicit \<open>next(error)\<close>); the
  error-rendering middleware is not part of the modelled sources.
\<close>

datatype outcome = Respond nat json | Next error

fun statusOf :: "outcome \<Rightarrow> nat option" where
  "statusOf (Respond st b) = Some st"
| "statusOf (Next e) = None"

fun bodyOf :: "outcome \<Rightarrow> json" where
  "bodyOf (Respond st b) = b"
| "bodyOf (Next e) = JNull"


section \<open>External collaborators\<close>

text \<open>
  The functions of the runtime and of the libraries that the code calls and that are not
  part of the repository are parameters of the model:
  \<^item> \<open>toISOString\<close>: \<open>Date.prototype.toISOString\<close> on a valid instant;
  \<^item> \<open>isValidObjectId\<close>: mongoose's \<open>Types.ObjectId.isValid\<close>;
  \<^item> \<open>timespan\<close>: what jsonwebtoken adds to \<open>iat\<close> for a string \<open>expiresIn\<close>, in whole
    seconds (\<open>None\<close> when its duration parser rejects the string and \<open>sign\<close> throws);
  \<^item> \<open>bcryptHash\<close>, \<open>bcryptCompare\<close>: bcrypt's \<open>hash\<close> and \<open>compare\<close>.
\<close>

record platform =
  toISOString :: "int \<Rightarrow> string"
  isValidObjectId :: "string \<Rightarrow> bool"
  timespan :: "string \<Rightarrow> int option"
  bcryptHash :: "string \<Rightarrow> nat \<Rightarrow> string"
  bcryptCompare :: "string \<Rightarrow> string \<Rightarrow> bool"

section \<open>Configuration (config/env.ts, utils/config.ts)\<close>

text \<open>
  The part of \<open>process.env\<close> and of \<open>envSchema\<close> that configures the tokens:
  \<^verbatim>\<open>JWT_SECRET: z.string().min(1, ...)\<close>,
  \<^verbatim>\<open>JWT_EXPIRES_IN: z.string().default('1h')\<close>,
  \<^verbatim>\<open>REFRESH_TOKEN_EXPIRES_IN: z.string().default('7d')\<close>.
  \<open>Inl\<close> is the list of issues printed before \<open>process.exit(1)\<close>.
\<close>

record process_env =
  JWT_SECRET :: "string option"
  JWT_EXPIRES_IN :: "string option"
  REFRESH_TOKEN_EXPIRES_IN :: "string option"

record jwt_config =
  secret :: string
  expiresIn :: string
  refreshExpiresIn :: string

definition envSchema :: "process_env \<Rightarrow> string list + jwt_config" where
  "envSchema env =
     (case JWT_SECRET env of
        None \<Rightarrow> Inl [''JWT_SECRET: Required'']
      | Some s \<Rightarrow>
          if length s < 1 then Inl [''JWT_SECRET: JWT_SECRET is required'']
          else Inr \<lparr> secret = s,
                     expiresIn = (case JWT_EXPIRES_IN env of None \<Rightarrow> ''1h'' | Some d \<Rightarrow> d),
                     refreshExpiresIn =
                       (case REFRESH_TOKEN_EXPIRES_IN env of None \<Rightarrow> ''7d'' | Some d \<Rightarrow> d) \<rparr>)"

section \<open>The jsonwebtoken library\<close>

text \<open>
  \<open>jwt.sign(payload, secret, {expiresIn, issuer, audience})\<close> at instant \<open>now\<close>:
  \<open>iat\<close> is the clock in whole seconds, \<open>exp\<close> is \<open>iat\<close> plus the timespan.
  \<open>jwt.verify(token, secret)\<close>: a text that is not a token or a signature under another
  key throws JsonWebTokenError; a good signature with \<open>exp\<close> at or before the clock
  throws TokenExpiredError. The signature is checked first.
\<close>

definition jwt_sign ::
  "platform \<Rightarrow> jwt_payload \<Rightarrow> string \<Rightarrow> string \<Rightarrow> string \<Rightarrow> string \<Rightarrow> int \<Rightarrow> error + token" where
  "jwt_sign P payload key expires issuer audience now =
     (if key = [] then Inl (Error ''secretOrPrivateKey must have a value'')
      else case timespan P expires of
        None \<Rightarrow> Inl (Error ''expiresIn should be a number of seconds or string representing a timespan'')
      | Some d \<Rightarrow>
          Inr (Signed (payload\<lparr> iat := Some (now div 1000),
                                 exp := Some (now div 1000 + d),
                                 iss := Some issuer,
                                 aud := Some audience \<rparr>) key))"

fun jwt_verify :: "token \<Rightarrow> string \<Rightarrow> int \<Rightarrow> error + jwt_payload" where
  "jwt_verify (Malformed s) key now =
     Inl (JsonWebTokenError (if s = [] then ''jwt must be provided'' else ''jwt malformed''))"
| "jwt_verify (Signed p k) key now =
     (if k \<noteq> key then Inl (JsonWebTokenError ''invalid signature'')
      else case exp p of
        None \<Rightarrow> Inr p
      | Some e \<Rightarrow> if e \<le> now div 1000 then Inl (TokenExpiredError ''jwt expired'') else Inr p)"

section \<open>The token module (middleware/auth: generateAccessToken and friends)\<close>

text \<open>The API view of a user, as \<open>transformUserForAPI\<close> builds it.\<close>

record api_user =
  au_id :: string
  au_email :: string
  au_firstName :: string
  au_lastName :: string
  au_dateOfBirth :: string
  au_enrollmentDate :: string
  au_createdAt :: string
  au_updatedAt :: string
  au_role :: string

text \<open>
  Both generators build the payload \<^verbatim>\<open>{ userId: user.id, email: user.email }\<close>: the
  interface \<open>JwtPayload\<close> of this module has no role, so the role is absent from it.
\<close>

definition generateAccessToken :: "platform \<Rightarrow> jwt_config \<Rightarrow> api_user \<Rightarrow> int \<Rightarrow> error + token" where
  "generateAccessToken P cfg user now =
     jwt_sign P \<lparr> userId = au_id user, email = au_email user, role = None,
                  iat = None, exp = None, iss = None, aud = None \<rparr>
       (secret cfg) (expiresIn cfg)
       ''acme-patient-dashboard'' ''acme-patient-dashboard-frontend'' now"

definition generateRefreshToken :: "platform \<Rightarrow> jwt_config \<Rightarrow> api_user \<Rightarrow> int \<Rightarrow> error + token" where
  "generateRefreshToken P cfg user now =
     jwt_sign P \<lparr> userId = au_id user, email = au_email user, role = None,
                  iat = None, exp = None, iss = None, aud = None \<rparr>
       (secret cfg) (refreshExpiresIn cfg)
       ''acme-patient-dashboard'' ''acme-patient-dashboard-frontend'' now"

definition verifyRefreshToken :: "jwt_config \<Rightarrow> token \<Rightarrow> int \<Rightarrow> error + jwt_payload" where
  "verifyRefreshToken cfg t now = jwt_verify t (secret cfg) now"

subsection \<open>parseInt, parseExpiration, getTokenExpiration\<close>

text \<open>
  \<open>parseInt(s)\<close> with no radix: leading white space is skipped, then an optional sign,
  then a \<open>0x\<close> prefix selects radix 16, then the longest run of digits is read; no digit
  at all gives NaN (\<open>None\<close>). The value is exact here.
\<close>

definition isWhiteSpace :: "char \<Rightarrow> bool" where
  "isWhiteSpace c = (c \<in> set [CHR '' '', CHR 0x09, CHR 0x0A, CHR 0x0B, CHR 0x0C, CHR 0x0D])"

definition digitOf :: "nat \<Rightarrow> char \<Rightarrow> nat option" where
  "digitOf radix c =
     (let n = (of_char c :: nat);
          v = (if 48 \<le> n \<and> n \<le> 57 then Some (n - 48)
               else if 97 \<le> n \<and> n \<le> 122 then Some (n - 87)
               else if 65 \<le> n \<and> n \<le> 90 then Some (n - 55)
               else None)
      in case v of None \<Rightarrow> None | Some d \<Rightarrow> if d < radix then Some d else None)"

fun readDigits :: "nat \<Rightarrow> string \<Rightarrow> nat option \<Rightarrow> nat option" where
  "readDigits radix [] acc = acc"
| "readDigits radix (c # cs) acc =
     (case digitOf radix c of
        None \<Rightarrow> acc
      | Some d \<Rightarrow> readDigits radix cs (Some (radix * (case acc of None \<Rightarrow> 0 | Some a \<Rightarrow> a) + d)))"

fun stripSign :: "string \<Rightarrow> bool \<times> string" where
  "stripSign (c # cs) =
     (if c = CHR ''-'' then (True, cs) else if c = CHR ''+'' then (False, cs) else (False, c # cs))"
| "stripSign [] = (False, [])"

fun stripRadix :: "string \<Rightarrow> nat \<times> string" where
  "stripRadix (a # b # cs) =
     (if a = CHR ''0'' \<and> (b = CHR ''x'' \<or> b = CHR ''X'') then (16, cs) else (10, a # b # cs))"
| "stripRadix cs = (10, cs)"

definition parseInt :: "string \<Rightarrow> int option" where
  "parseInt s =
     (let (neg, u) = stripSign (dropWhile isWhiteSpace s);
          (radix, v) = stripRadix u
      in map_option (\<lambda>n. if neg then - int n else int n) (readDigits radix v None))"

text \<open>
  \<open>parseExpiration\<close>: the unit is the last character, the value is \<open>parseInt\<close> of the
  rest; a NaN value gives a NaN product (\<open>Inr None\<close>); an unknown unit throws.
\<close>

definition parseExpiration :: "string \<Rightarrow> error + int option" where
  "parseExpiration expires =
     (let unit = (if expires = [] then [] else [last expires]);
          v = parseInt (butlast expires)
      in if unit = ''s'' then Inr (map_option (\<lambda>n. n * 1000) v)
         else if unit = ''m'' then Inr (map_option (\<lambda>n. n * 60 * 1000) v)
         else if unit = ''h'' then Inr (map_option (\<lambda>n. n * 60 * 60 * 1000) v)
         else if unit = ''d'' then Inr (map_option (\<lambda>n. n * 24 * 60 * 60 * 1000) v)
         else Inl (Error (''Invalid expiration format: '' @ expires)))"

text \<open>
  \<open>getTokenExpiration\<close>: \<open>new Date(now + parseExpiration(expiresIn)).toISOString()\<close>.
  A Date holds at most 8.64e15 ms on either side of the epoch; beyond that, and for NaN,
  the Date is invalid and \<open>toISOString\<close> throws a RangeError.
\<close>

definition getTokenExpiration :: "platform \<Rightarrow> int \<Rightarrow> string \<Rightarrow> error + string" where
  "getTokenExpiration P now expires =
     (case parseExpiration expires of
        Inl e \<Rightarrow> Inl e
      | Inr None \<Rightarrow> Inl (RangeError ''Invalid time value'')
      | Inr (Some d) \<Rightarrow>
          if \<bar>now + d\<bar> \<le> 8640000000000000 then Inr (toISOString P (now + d))
          else Inl (RangeError ''Invalid time value''))"

section \<open>Stored documents (models/*.model.ts)\<close>

text \<open>
  One record per mongoose schema, with the store-generated \<open>_id\<close> and the two
  \<open>timestamps: true\<close> fields. Identifiers are the hexadecimal text of an ObjectId.
\<close>

record user_doc =
  u_id :: string
  u_email :: string
  u_passwordHash :: string
  u_name :: string
  u_dob :: int
  u_role :: string
  u_createdAt :: int
  u_updatedAt :: int

record weight_entry =
  we_id :: string
  we_userId :: string
  we_weight :: rat
  we_recordedAt :: int
  we_notes :: "string option"
  we_createdAt :: int
  we_updatedAt :: int

record medication =
  med_id :: string
  med_userId :: string
  med_name :: string
  med_dosage :: string
  med_frequency :: string
  med_startDate :: int
  med_endDate :: "int option"
  med_createdAt :: int
  med_updatedAt :: int

record shipment_item =
  si_name :: string
  si_quantity :: rat
  si_price :: "rat option"

record shipment =
  sh_id :: string
  sh_userId :: string
  sh_items :: "shipment_item list"
  sh_status :: string
  sh_trackingNumber :: "string option"
  sh_shippedAt :: "int option"
  sh_deliveredAt :: "int option"
  sh_createdAt :: int
  sh_updatedAt :: int

text \<open>The document store: four collections, each in insertion order.\<close>

record store =
  users :: "user_doc list"
  weightEntries :: "weight_entry list"
  medications :: "medication list"
  shipments :: "shipment list"

section \<open>Authentication controller (controllers/auth.controller.ts)\<close>

text \<open>
  \<open>user.toObject()\<close> gives a plain object; \<open>delete userResponse.passwordHash\<close> and
  the projection \<open>select('-passwordHash')\<close> leave it without that property.
\<close>

record user_object =
  o_id :: string
  o_email :: string
  o_passwordHash :: "string option"
  o_name :: string
  o_dob :: int
  o_role :: string
  o_createdAt :: int
  o_updatedAt :: int

definition toObject :: "user_doc \<Rightarrow> user_object" where
  "toObject u =
     \<lparr> o_id = u_id u, o_email = u_email u, o_passwordHash = Some (u_passwordHash u),
       o_name = u_name u, o_dob = u_dob u, o_role = u_role u,
       o_createdAt = u_createdAt u, o_updatedAt = u_updatedAt u \<rparr>"

definition deletePasswordHash :: "user_object \<Rightarrow> user_object" where
  "deletePasswordHash ob = ob\<lparr> o_passwordHash := None \<rparr>"

text \<open>\<open>String.prototype.split\<close> on a one-character separator, and \<open>Array.prototype.join\<close>.\<close>

fun split :: "char \<Rightarrow> string \<Rightarrow> string list" where
  "split sep [] = [[]]"
| "split sep (c # cs) =
     (if c = sep then [] # split sep cs
      else case split sep cs of [] \<Rightarrow> [[c]] | w # ws \<Rightarrow> (c # w) # ws)"

fun join :: "char \<Rightarrow> string list \<Rightarrow> string" where
  "join sep [] = []"
| "join sep [w] = w"
| "join sep (w # ws) = w @ sep # join sep ws"

definition firstPart :: "char \<Rightarrow> string \<Rightarrow> string" where
  "firstPart sep s = (case split sep s of [] \<Rightarrow> [] | w # ws \<Rightarrow> w)"

definition transformUserForAPI :: "platform \<Rightarrow> user_object \<Rightarrow> api_user" where
  "transformUserForAPI P userDoc =
     \<lparr> au_id = o_id userDoc,
       au_email = o_email userDoc,
       au_firstName =
         (if firstPart CHR '' '' (o_name userDoc) = [] then o_name userDoc
          else firstPart CHR '' '' (o_name userDoc)),
       au_lastName = join CHR '' '' (tl (split CHR '' '' (o_name userDoc))),
       au_dateOfBirth = firstPart CHR ''T'' (toISOString P (o_dob userDoc)),
       au_enrollmentDate = firstPart CHR ''T'' (toISOString P (o_createdAt userDoc)),
       au_createdAt = toISOString P (o_createdAt userDoc),
       au_updatedAt = toISOString P (o_updatedAt userDoc),
       au_role = o_role userDoc \<rparr>"

definition apiUserJSON :: "api_user \<Rightarrow> json" where
  "apiUserJSON u =
     JObj [(''id'', JStr (au_id u)), (''email'', JStr (au_email u)),
           (''firstName'', JStr (au_firstName u)), (''lastName'', JStr (au_lastName u)),
           (''dateOfBirth'', JStr (au_dateOfBirth u)),
           (''enrollmentDate'', JStr (au_enrollmentDate u)),
           (''createdAt'', JStr (au_createdAt u)), (''updatedAt'', JStr (au_updatedAt u)),
           (''role'', JStr (au_role u))]"

text \<open>\<open>sendSuccess\<close> of utils/apiResponse.ts.\<close>

definition sendSuccess :: "platform \<Rightarrow> int \<Rightarrow> json \<Rightarrow> string \<Rightarrow> nat \<Rightarrow> outcome" where
  "sendSuccess P now dat msg statusCode =
     Respond statusCode
       (JObj [(''success'', JBool True), (''message'', JStr msg), (''data'', dat),
              (''timestamp'', JStr (toISOString P now)),
              (''statusCode'', JNum (of_nat statusCode))])"

text \<open>
  The steps shared by register, login and refresh once the user object is at hand:
  transform it, generate the two tokens, compute \<open>expiresIn\<close>, build the AuthResponse.
  Each step can throw.
\<close>

definition authResponse :: "platform \<Rightarrow> jwt_config \<Rightarrow> int \<Rightarrow> user_object \<Rightarrow> error + json" where
  "authResponse P cfg now userResponse =
     (let apiUser = transformUserForAPI P userResponse in
      case generateAccessToken P cfg apiUser now of
        Inl e \<Rightarrow> Inl e
      | Inr accessToken \<Rightarrow>
          (case generateRefreshToken P cfg apiUser now of
             Inl e \<Rightarrow> Inl e
           | Inr refreshTok \<Rightarrow>
               (case getTokenExpiration P now (expiresIn cfg) of
                  Inl e \<Rightarrow> Inl e
                | Inr ex \<Rightarrow>
                    Inr (JObj [(''user'', apiUserJSON apiUser), (''token'', JTok accessToken),
                               (''refreshToken'', JTok refreshTok), (''expiresIn'', JStr ex)]))))"

text \<open>
  Store queries on users. \<open>findById\<close> casts its argument to an ObjectId and throws a
  CastError when it cannot.
\<close>

definition findUserByEmail :: "store \<Rightarrow> string \<Rightarrow> user_doc option" where
  "findUserByEmail s e = find (\<lambda>u. u_email u = e) (users s)"

definition findUserById :: "platform \<Rightarrow> store \<Rightarrow> string \<Rightarrow> error + user_doc option" where
  "findUserById P s i =
     (if isValidObjectId P i then Inr (find (\<lambda>u. u_id u = i) (users s))
      else Inl (CastError ''Cast to ObjectId failed''))"

text \<open>
  The user schema's setters and validators: email is trimmed and lower-cased (also in
  the filter of \<open>findOne\<close>, which mongoose casts with the same setters), name is
  trimmed, both are required (non-empty), \<open>dob\<close> must be a valid date (\<open>None\<close> is an
  invalid one) and the role must be in the enumeration. The body's email, password
  and name are taken as present strings.
\<close>

definition trim :: "string \<Rightarrow> string" where
  "trim s = rev (dropWhile isWhiteSpace (rev (dropWhile isWhiteSpace s)))"

definition toLowerCase :: "string \<Rightarrow> string" where
  "toLowerCase s =
     map (\<lambda>c. if 65 \<le> (of_char c :: nat) \<and> (of_char c :: nat) \<le> 90
               then char_of ((of_char c :: nat) + 32) else c) s"

record register_body =
  rb_email :: string
  rb_password :: string
  rb_name :: string
  rb_dob :: "int option"
  rb_role :: "string option"

text \<open>
  What a request takes from its environment: the clock (every reading of the clock
  during one request gives \<open>now\<close>) and the \<open>_id\<close> the store generates for a document
  created by the request.
\<close>

record request_env =
  now :: int
  newId :: string

definition register ::
  "platform \<Rightarrow> jwt_config \<Rightarrow> request_env \<Rightarrow> register_body \<Rightarrow> store \<Rightarrow> outcome \<times> store" where
  "register P cfg rq body s =
     (case findUserByEmail s (toLowerCase (trim (rb_email body))) of
        Some existing \<Rightarrow> (Next (ApiError ''User already exists with this email'' 409), s)
      | None \<Rightarrow>
          (let passwordHash = bcryptHash P (rb_password body) 12;
               r = (case rb_role body of None \<Rightarrow> ''user'' | Some x \<Rightarrow> if x = [] then ''user'' else x)
           in case rb_dob body of
                None \<Rightarrow> (Next (ValidationError ''User validation failed''), s)
              | Some d \<Rightarrow>
                  if toLowerCase (trim (rb_email body)) = [] \<or> trim (rb_name body) = []
                     \<or> r \<notin> set [''admin'', ''user'', ''moderator'']
                  then (Next (ValidationError ''User validation failed''), s)
                  else
                    (let savedUser =
                           \<lparr> u_id = newId rq, u_email = toLowerCase (trim (rb_email body)),
                             u_passwordHash = passwordHash, u_name = trim (rb_name body),
                             u_dob = d, u_role = r,
                             u_createdAt = now rq, u_updatedAt = now rq \<rparr>;
                         s' = s\<lparr> users := users s @ [savedUser] \<rparr>
                     in case authResponse P cfg (now rq) (deletePasswordHash (toObject savedUser)) of
                          Inl e \<Rightarrow> (Next e, s')
                        | Inr a \<Rightarrow>
                            (sendSuccess P (now rq) a ''User registered successfully'' 201, s'))))"

record login_body =
  lb_email :: string
  lb_password :: string

definition login :: "platform \<Rightarrow> jwt_config \<Rightarrow> request_env \<Rightarrow> login_body \<Rightarrow> store \<Rightarrow> outcome" where
  "login P cfg rq body s =
     (case findUserByEmail s (toLowerCase (trim (lb_email body))) of
        None \<Rightarrow> Next (ApiError ''Invalid credentials'' 401)
      | Some user \<Rightarrow>
          if \<not> bcryptCompare P (lb_password body) (u_passwordHash user)
          then Next (ApiError ''Invalid credentials'' 401)
          else (case authResponse P cfg (now rq) (deletePasswordHash (toObject user)) of
                  Inl e \<Rightarrow> Next e
                | Inr a \<Rightarrow> sendSuccess P (now rq) a ''Login successful'' 200))"

text \<open>
  \<open>refreshToken\<close>: a missing or empty token is a 400; everything thrown inside the
  \<open>try\<close> block is replaced by the same 401 error.
\<close>

definition refreshToken ::
  "platform \<Rightarrow> jwt_config \<Rightarrow> request_env \<Rightarrow> token option \<Rightarrow> store \<Rightarrow> outcome" where
  "refreshToken P cfg rq body s =
     (case body of
        None \<Rightarrow> Next (ApiError ''Refresh token is required'' 400)
      | Some tok \<Rightarrow>
          if tok = Malformed [] then Next (ApiError ''Refresh token is required'' 400)
          else
            (case verifyRefreshToken cfg tok (now rq) of
               Inl e \<Rightarrow> Next (ApiError ''Invalid or expired refresh token'' 401)
             | Inr decoded \<Rightarrow>
                 (case findUserById P s (userId decoded) of
                    Inl e \<Rightarrow> Next (ApiError ''Invalid or expired refresh token'' 401)
                  | Inr None \<Rightarrow> Next (ApiError ''Invalid or expired refresh token'' 401)
                  | Inr (Some user) \<Rightarrow>
                      (case authResponse P cfg (now rq) (deletePasswordHash (toObject user)) of
                         Inl e \<Rightarrow> Next (ApiError ''Invalid or expired refresh token'' 401)
                       | Inr a \<Rightarrow> sendSuccess P (now rq) a ''Token refreshed successfully'' 200))))"

text \<open>The identity the middleware attaches to the request (\<open>req.user\<close>).\<close>

record req_user =
  ru_id :: string
  ru_email :: string
  ru_role :: string
  ru_createdAt :: string
  ru_updatedAt :: string

definition getProfile :: "platform \<Rightarrow> request_env \<Rightarrow> req_user option \<Rightarrow> store \<Rightarrow> outcome" where
  "getProfile P rq user s =
     (case user of
        None \<Rightarrow> Next (ApiError ''User not authenticated'' 401)
      | Some ru \<Rightarrow>
          if ru_id ru = [] then Next (ApiError ''User not authenticated'' 401)
          else (case findUserById P s (ru_id ru) of
                  Inl e \<Rightarrow> Next e
                | Inr None \<Rightarrow> Next (ApiError ''User not found'' 404)
                | Inr (Some u) \<Rightarrow>
                    sendSuccess P (now rq)
                      (apiUserJSON (transformUserForAPI P (deletePasswordHash (toObject u))))
                      ''User profile retrieved successfully'' 200))"

section \<open>Authentication middleware (middlewares/auth.middleware.ts)\<close>

text \<open>
  The Authorization header: \<open>Bearer t\<close> is the text \<open>Bearer\<close>, a space and the text of
  \<open>t\<close>; \<open>Opaque h\<close> is a header \<open>h\<close> that does not start that way. An empty token text
  is \<open>Malformed []\<close>.
\<close>

datatype authorization = Bearer token | Opaque string

datatype verdict = Reject nat json | Attach req_user

definition authFailure :: "platform \<Rightarrow> int \<Rightarrow> nat \<Rightarrow> string \<Rightarrow> string \<Rightarrow> verdict" where
  "authFailure P t st err msg =
     Reject st (JObj [(''success'', JBool False), (''error'', JStr err), (''message'', JStr msg),
                      (''timestamp'', JStr (toISOString P t))])"

definition handleAuthError :: "platform \<Rightarrow> int \<Rightarrow> error \<Rightarrow> verdict" where
  "handleAuthError P t e =
     (if instanceofJsonWebTokenError e
      then authFailure P t 401 ''Invalid token'' ''The provided token is invalid or malformed''
      else if instanceofTokenExpiredError e
      then authFailure P t 401 ''Token expired'' ''The provided token has expired''
      else authFailure P t 500 ''Authentication error'' ''An error occurred during authentication'')"

definition authenticateToken ::
  "platform \<Rightarrow> jwt_config \<Rightarrow> int \<Rightarrow> authorization option \<Rightarrow> store \<Rightarrow> verdict" where
  "authenticateToken P cfg t authHeader s =
     (case (case authHeader of Some (Bearer tok) \<Rightarrow> (if tok = Malformed [] then None else Some tok)
                             | _ \<Rightarrow> None) of
        None \<Rightarrow>
          authFailure P t 401 ''Access token required''
            ''Please provide a valid access token in the Authorization header''
      | Some tok \<Rightarrow>
          (case jwt_verify tok (secret cfg) t of
             Inl e \<Rightarrow> handleAuthError P t e
           | Inr decoded \<Rightarrow>
               (case findUserById P s (userId decoded) of
                  Inl e \<Rightarrow> handleAuthError P t e
                | Inr None \<Rightarrow>
                    authFailure P t 401 ''User not found''
                      ''The user associated with this token no longer exists''
                | Inr (Some user) \<Rightarrow>
                    Attach \<lparr> ru_id = u_id user, ru_email = u_email user,
                             ru_role =
                               (if u_role user \<noteq> [] then u_role user
                                else case role decoded of
                                       Some r \<Rightarrow> if r \<noteq> [] then r else ''user''
                                     | None \<Rightarrow> ''user''),
                             ru_createdAt = toISOString P (u_createdAt user),
                             ru_updatedAt = toISOString P (u_updatedAt user) \<rparr>)))"

section \<open>Store operations shared by the resource controllers\<close>

text \<open>
  \<open>findOne\<close> returns the first document matching the filter; \<open>findOneAndUpdate\<close>,
  \<open>save\<close> of a loaded document and \<open>findOneAndDelete\<close> change or remove that first
  match only.
\<close>

fun updateFirst :: "('a \<Rightarrow> bool) \<Rightarrow> ('a \<Rightarrow> 'a) \<Rightarrow> 'a list \<Rightarrow> 'a list" where
  "updateFirst p f [] = []"
| "updateFirst p f (x # xs) = (if p x then f x # xs else x # updateFirst p f xs)"


text \<open>
  A date-carrying field of a request: \<open>Undefined\<close> (absent), \<open>InvalidDate\<close> (a
  non-empty text that \<open>new Date\<close> cannot parse) or \<open>At t\<close> (a text that parses to the
  instant \<open>t\<close>). The first is falsy, the other two are truthy.
\<close>

datatype date_input = Undefined | InvalidDate | At int


section \<open>Weight entries (controllers/weightEntry.controller.ts)\<close>

definition weightEntryJSON :: "platform \<Rightarrow> weight_entry \<Rightarrow> json" where
  "weightEntryJSON P e =
     JObj ([(''_id'', JStr (we_id e)), (''userId'', JStr (we_userId e)),
            (''weight'', JNum (we_weight e)),
            (''recordedAt'', JStr (toISOString P (we_recordedAt e)))]
           @ (case we_notes e of None \<Rightarrow> [] | Some n \<Rightarrow> [(''notes'', JStr n)])
           @ [(''createdAt'', JStr (toISOString P (we_createdAt e))),
              (''updatedAt'', JStr (toISOString P (we_updatedAt e))),
              (''__v'', JNum 0)])"

text \<open>
  The response envelope of this controller: \<open>data: undefined\<close> is dropped by the JSON
  serialiser, so the key is present only when there is a value (\<open>null\<close> included).
\<close>

definition weightReply :: "platform \<Rightarrow> int \<Rightarrow> nat \<Rightarrow> bool \<Rightarrow> string \<Rightarrow> json option \<Rightarrow> outcome" where
  "weightReply P t st ok msg dat =
     Respond st
       (JObj ([(''success'', JBool ok), (''message'', JStr msg)]
              @ (case dat of None \<Rightarrow> [] | Some d \<Rightarrow> [(''data'', d)])
              @ [(''timestamp'', JStr (toISOString P t))]))"

definition notAuthenticated :: "platform \<Rightarrow> int \<Rightarrow> outcome" where
  "notAuthenticated P t = weightReply P t 401 False ''User not authenticated'' None"

definition internalError :: "platform \<Rightarrow> int \<Rightarrow> outcome" where
  "internalError P t = weightReply P t 500 False ''Internal server error'' None"

definition invalidId :: "platform \<Rightarrow> int \<Rightarrow> outcome" where
  "invalidId P t = weightReply P t 400 False ''Invalid weight entry ID'' None"

definition entryNotFound :: "platform \<Rightarrow> int \<Rightarrow> outcome" where
  "entryNotFound P t = weightReply P t 404 False ''Weight entry not found'' None"

text \<open>\<open>req.user?.id\<close>, with \<open>!userId\<close> true for a missing user and for an empty id.\<close>

definition callerId :: "req_user option \<Rightarrow> string option" where
  "callerId user = (case user of None \<Rightarrow> None | Some ru \<Rightarrow> if ru_id ru = [] then None else Some (ru_id ru))"









record weight_body =
  wb_weight :: "rat option"
  wb_recordedAt :: date_input
  wb_notes :: "string option"

text \<open>
  \<open>createWeightEntry\<close>: the duplicate check looks for an entry of the caller at
  \<open>new Date(recordedAt || Date.now())\<close>; the new entry is validated on save (weight
  required and at least 0).
\<close>

definition createWeightEntry ::
  "platform \<Rightarrow> request_env \<Rightarrow> req_user option \<Rightarrow> weight_body \<Rightarrow> store \<Rightarrow> outcome \<times> store" where
  "createWeightEntry P rq user body s =
     (case callerId user of
        None \<Rightarrow> (notAuthenticated P (now rq), s)
      | Some uid \<Rightarrow>
          if \<not> isValidObjectId P uid \<or> wb_recordedAt body = InvalidDate
          then (internalError P (now rq), s)
          else
            (let recorded = (case wb_recordedAt body of At t \<Rightarrow> t | _ \<Rightarrow> now rq) in
             case find (\<lambda>e. we_userId e = uid \<and> we_recordedAt e = recorded) (weightEntries s) of
               Some existingEntry \<Rightarrow>
                 (weightReply P (now rq) 409 False ''Weight entry already exists for this date'' None, s)
             | None \<Rightarrow>
                 (case wb_weight body of
                    None \<Rightarrow> (internalError P (now rq), s)
                  | Some w \<Rightarrow>
                      if w < 0 then (internalError P (now rq), s)
                      else
                        (let savedEntry =
                               \<lparr> we_id = newId rq, we_userId = uid, we_weight = w,
                                 we_recordedAt = recorded, we_notes = wb_notes body,
                                 we_createdAt = now rq, we_updatedAt = now rq \<rparr>
                         in (weightReply P (now rq) 201 True ''Weight entry created successfully''
                               (Some (weightEntryJSON P savedEntry)),
                             s\<lparr> weightEntries := weightEntries s @ [savedEntry] \<rparr>)))))"

definition findOwnEntry :: "string \<Rightarrow> string \<Rightarrow> store \<Rightarrow> weight_entry option" where
  "findOwnEntry i uid s = find (\<lambda>e. we_id e = i \<and> we_userId e = uid) (weightEntries s)"


text \<open>
  \<open>updateWeightEntry\<close>: the fields that are not \<open>undefined\<close> are assigned, then
  the document is saved: validation, and the write replaces the document with that
  \<open>_id\<close>; \<open>updatedAt\<close> moves only when an assignment changed the document.
\<close>

definition updateWeightEntry ::
  "platform \<Rightarrow> int \<Rightarrow> req_user option \<Rightarrow> string \<Rightarrow> weight_body \<Rightarrow> store \<Rightarrow> outcome \<times> store" where
  "updateWeightEntry P t user i body s =
     (case callerId user of
        None \<Rightarrow> (notAuthenticated P t, s)
      | Some uid \<Rightarrow>
          if i = [] \<or> \<not> isValidObjectId P i then (invalidId P t, s)
          else if \<not> isValidObjectId P uid then (internalError P t, s)
          else (case findOwnEntry i uid s of
                  None \<Rightarrow> (entryNotFound P t, s)
                | Some weightEntry \<Rightarrow>
                    (let w = (case wb_weight body of None \<Rightarrow> we_weight weightEntry | Some x \<Rightarrow> x);
                         n = (case wb_notes body of None \<Rightarrow> we_notes weightEntry | Some x \<Rightarrow> Some x)
                     in if wb_recordedAt body = InvalidDate \<or> w < 0 then (internalError P t, s)
                        else
                          (let assigned =
                                 weightEntry\<lparr> we_weight := w,
                                   we_recordedAt :=
                                     (case wb_recordedAt body of
                                        At r \<Rightarrow> r | _ \<Rightarrow> we_recordedAt weightEntry),
                                   we_notes := n \<rparr>;
                               updatedEntry =
                                 (if assigned = weightEntry then weightEntry
                                  else assigned\<lparr> we_updatedAt := t \<rparr>)
                           in (weightReply P t 200 True ''Weight entry updated successfully''
                                 (Some (weightEntryJSON P updatedEntry)),
                               s\<lparr> weightEntries :=
                                    updateFirst (\<lambda>e. we_id e = we_id weightEntry) (\<lambda>e. updatedEntry)
                                      (weightEntries s) \<rparr>)))))"


section \<open>Medications (controllers/medication.controller.ts)\<close>

text \<open>
  The medication routes run behind \<open>authenticateToken\<close>, so the handlers are modelled
  with \<open>req.user\<close> set. The body carries the schema's paths, each possibly absent;
  \<open>mb_userId\<close> is a \<open>userId\<close> the client put into the body.
\<close>

record med_body =
  mb_userId :: "string option"
  mb_name :: "string option"
  mb_dosage :: "string option"
  mb_frequency :: "string option"
  mb_startDate :: date_input
  mb_endDate :: date_input

definition medicationJSON :: "platform \<Rightarrow> medication \<Rightarrow> json" where
  "medicationJSON P m =
     JObj ([(''_id'', JStr (med_id m)), (''userId'', JStr (med_userId m)),
            (''name'', JStr (med_name m)), (''dosage'', JStr (med_dosage m)),
            (''frequency'', JStr (med_frequency m)),
            (''startDate'', JStr (toISOString P (med_startDate m)))]
           @ (case med_endDate m of None \<Rightarrow> [] | Some d \<Rightarrow> [(''endDate'', JStr (toISOString P d))])
           @ [(''createdAt'', JStr (toISOString P (med_createdAt m))),
              (''updatedAt'', JStr (toISOString P (med_updatedAt m))),
              (''__v'', JNum 0)])"

definition required :: "string option \<Rightarrow> bool" where
  "required v = (case v of None \<Rightarrow> False | Some x \<Rightarrow> trim x \<noteq> [])"

text \<open>
  \<open>createMedication\<close>: the document is \<^verbatim>\<open>{ ...req.body, userId: req.user?.id }\<close>, the
  later property replacing a \<open>userId\<close> of the body; \<open>Medication.create\<close> validates it
  against the schema and a failure goes to \<open>next\<close>.
\<close>

definition createMedication ::
  "platform \<Rightarrow> request_env \<Rightarrow> req_user \<Rightarrow> med_body \<Rightarrow> store \<Rightarrow> outcome \<times> store" where
  "createMedication P rq user body s =
     (let doc = body\<lparr> mb_userId := Some (ru_id user) \<rparr> in
      case (mb_userId doc, mb_startDate doc) of
        (Some uid, At start) \<Rightarrow>
          if \<not> isValidObjectId P uid \<or> \<not> required (mb_name doc) \<or> \<not> required (mb_dosage doc)
             \<or> \<not> required (mb_frequency doc) \<or> mb_endDate doc = InvalidDate
          then (Next (ValidationError ''Medication validation failed''), s)
          else
            (let medication =
                   \<lparr> med_id = newId rq, med_userId = uid,
                     med_name = trim (the (mb_name doc)), med_dosage = trim (the (mb_dosage doc)),
                     med_frequency = trim (the (mb_frequency doc)), med_startDate = start,
                     med_endDate = (case mb_endDate doc of At e \<Rightarrow> Some e | _ \<Rightarrow> None),
                     med_createdAt = now rq, med_updatedAt = now rq \<rparr>
             in (Respond 201 (JObj [(''success'', JBool True), (''data'', medicationJSON P medication)]),
                 s\<lparr> medications := medications s @ [medication] \<rparr>))
      | _ \<Rightarrow> (Next (ValidationError ''Medication validation failed''), s))"

definition getMedications :: "platform \<Rightarrow> req_user \<Rightarrow> store \<Rightarrow> outcome" where
  "getMedications P user s =
     (if \<not> isValidObjectId P (ru_id user) then Next (CastError ''Cast to ObjectId failed'')
      else Respond 200
             (JObj [(''success'', JBool True),
                    (''data'', JArr (map (medicationJSON P)
                                  (filter (\<lambda>m. med_userId m = ru_id user) (medications s))))]))"








section \<open>Shipments (controllers/shipment.controller.ts)\<close>

text \<open>
  The shipment router installs no authentication middleware and the handlers never read
  \<open>req.user\<close>: they depend on the body, the id parameter and the store only.
\<close>

record shipment_body =
  sb_userId :: "string option"
  sb_items :: "shipment_item list option"
  sb_status :: "string option"
  sb_trackingNumber :: "string option"
  sb_shippedAt :: date_input
  sb_deliveredAt :: date_input

definition shipmentItemJSON :: "shipment_item \<Rightarrow> json" where
  "shipmentItemJSON it =
     JObj ([(''name'', JStr (si_name it)), (''quantity'', JNum (si_quantity it))]
           @ (case si_price it of None \<Rightarrow> [] | Some p \<Rightarrow> [(''price'', JNum p)]))"

definition shipmentJSON :: "platform \<Rightarrow> shipment \<Rightarrow> json" where
  "shipmentJSON P sh =
     JObj ([(''_id'', JStr (sh_id sh)), (''userId'', JStr (sh_userId sh)),
            (''items'', JArr (map shipmentItemJSON (sh_items sh))),
            (''status'', JStr (sh_status sh))]
           @ (case sh_trackingNumber sh of None \<Rightarrow> [] | Some n \<Rightarrow> [(''trackingNumber'', JStr n)])
           @ (case sh_shippedAt sh of None \<Rightarrow> [] | Some d \<Rightarrow> [(''shippedAt'', JStr (toISOString P d))])
           @ (case sh_deliveredAt sh of None \<Rightarrow> []
              | Some d \<Rightarrow> [(''deliveredAt'', JStr (toISOString P d))])
           @ [(''createdAt'', JStr (toISOString P (sh_createdAt sh))),
              (''updatedAt'', JStr (toISOString P (sh_updatedAt sh))),
              (''__v'', JNum 0)])"


definition validItem :: "shipment_item \<Rightarrow> bool" where
  "validItem it =
     (trim (si_name it) \<noteq> [] \<and> 1 \<le> si_quantity it
      \<and> (case si_price it of None \<Rightarrow> True | Some p \<Rightarrow> 0 \<le> p))"

definition dateOf :: "date_input \<Rightarrow> int option" where
  "dateOf d = (case d of At t \<Rightarrow> Some t | _ \<Rightarrow> None)"

definition shipmentFailure :: "nat \<Rightarrow> string \<Rightarrow> string \<Rightarrow> outcome" where
  "shipmentFailure st err msg =
     Respond st (JObj [(''success'', JBool False), (''error'', JStr err), (''message'', JStr msg)])"

text \<open>
  \<open>createShipment\<close>: \<open>new Shipment(req.body)\<close> takes every path, \<open>userId\<close> included,
  from the body; \<open>save\<close> validates (the message of the error is abbreviated here).
\<close>

definition createShipment :: "platform \<Rightarrow> request_env \<Rightarrow> shipment_body \<Rightarrow> store \<Rightarrow> outcome \<times> store" where
  "createShipment P rq body s =
     (case (sb_userId body, sb_items body) of
        (Some uid, Some its) \<Rightarrow>
          if \<not> isValidObjectId P uid \<or> its = [] \<or> \<not> list_all validItem its
             \<or> (case sb_status body of None \<Rightarrow> False
                 | Some st \<Rightarrow> st \<notin> set [''pending'', ''shipped'', ''delivered'', ''cancelled''])
             \<or> sb_shippedAt body = InvalidDate \<or> sb_deliveredAt body = InvalidDate
          then (shipmentFailure 400 ''Failed to create shipment'' ''Shipment validation failed'', s)
          else
            (let shipment =
                   \<lparr> sh_id = newId rq, sh_userId = uid,
                     sh_items = map (\<lambda>it. it\<lparr> si_name := trim (si_name it) \<rparr>) its,
                     sh_status = (case sb_status body of None \<Rightarrow> ''pending'' | Some st \<Rightarrow> st),
                     sh_trackingNumber = map_option trim (sb_trackingNumber body),
                     sh_shippedAt = dateOf (sb_shippedAt body),
                     sh_deliveredAt = dateOf (sb_deliveredAt body),
                     sh_createdAt = now rq, sh_updatedAt = now rq \<rparr>
             in (Respond 201 (JObj [(''success'', JBool True), (''data'', shipmentJSON P shipment)]),
                 s\<lparr> shipments := shipments s @ [shipment] \<rparr>))
      | _ \<Rightarrow> (shipmentFailure 400 ''Failed to create shipment'' ''Shipment validation failed'', s))"




section \<open>Observations on outcomes and on the store\<close>

text \<open>A handler threw (or called \<open>next\<close> with an error) instead of answering.\<close>

fun threw :: "outcome \<Rightarrow> bool" where
  "threw (Next e) = True"
| "threw (Respond st b) = False"

text \<open>Every property name that occurs in a JSON value, at any depth.\<close>

fun jsonKeys :: "json \<Rightarrow> string list" where
  "jsonKeys (JArr js) = concat (map jsonKeys js)"
| "jsonKeys (JObj kvs) = map fst kvs @ concat (map (\<lambda>kv. jsonKeys (snd kv)) kvs)"
| "jsonKeys j = []"

text \<open>The same store with every stored password hash replaced (by \<open>g\<close> of the user).\<close>

definition rehash :: "(user_doc \<Rightarrow> string) \<Rightarrow> store \<Rightarrow> store" where
  "rehash g s = s\<lparr> users := map (\<lambda>u. u\<lparr> u_passwordHash := g u \<rparr>) (users s) \<rparr>"

section \<open>Concrete values for the examples\<close>

definition demoPlatform :: platform where
  "demoPlatform =
     \<lparr> toISOString = (\<lambda>t. ''2024-01-01T00:00:00.000Z''),
       isValidObjectId = (\<lambda>i. length i = 24),
       timespan = (\<lambda>d. if d = ''1h'' then Some 3600 else if d = ''7d'' then Some 604800 else None),
       bcryptHash = (\<lambda>p r. ''$2b$'' @ p),
       bcryptCompare = (\<lambda>p h. h = ''$2b$'' @ p) \<rparr>"

definition demoConfig :: jwt_config where
  "demoConfig =
     \<lparr> secret = ''0123456789abcdef0123456789abcdef'', expiresIn = ''1h'', refreshExpiresIn = ''7d'' \<rparr>"

definition demoRequest :: request_env where
  "demoRequest = \<lparr> now = 5000, newId = ''64b0000000000000000000e1'' \<rparr>"

definition laterRequest :: request_env where
  "laterRequest = \<lparr> now = 9000, newId = ''64b0000000000000000000e2'' \<rparr>"

definition alice :: user_doc where
  "alice =
     \<lparr> u_id = ''64b0000000000000000000a1'', u_email = ''alice@example.com'',
       u_passwordHash = ''$2b$Secret123!'', u_name = ''Alice Liddell'', u_dob = 0,
       u_role = ''user'', u_createdAt = 1000, u_updatedAt = 1000 \<rparr>"

definition aliceUser :: req_user where
  "aliceUser =
     \<lparr> ru_id = ''64b0000000000000000000a1'', ru_email = ''alice@example.com'', ru_role = ''user'',
       ru_createdAt = ''2024-01-01T00:00:00.000Z'', ru_updatedAt = ''2024-01-01T00:00:00.000Z'' \<rparr>"



definition expiredPayload :: jwt_payload where
  "expiredPayload =
     \<lparr> userId = ''64b0000000000000000000a1'', email = ''alice@example.com'', role = None,
       iat = Some 0, exp = Some 3600, iss = Some ''acme-patient-dashboard'',
       aud = Some ''acme-patient-dashboard-frontend'' \<rparr>"

definition emptyStore :: store where
  "emptyStore = \<lparr> users = [], weightEntries = [], medications = [], shipments = [] \<rparr>"

definition entry :: "string \<Rightarrow> string \<Rightarrow> int \<Rightarrow> weight_entry" where
  "entry i uid r =
     \<lparr> we_id = i, we_userId = uid, we_weight = 180, we_recordedAt = r, we_notes = None,
       we_createdAt = 1000, we_updatedAt = 1000 \<rparr>"

definition bobsMedication :: medication where
  "bobsMedication =
     \<lparr> med_id = ''64b0000000000000000000d1'', med_userId = ''64b0000000000000000000b2'',
       med_name = ''Semaglutide'', med_dosage = ''1.0 mg'', med_frequency = ''Weekly'',
       med_startDate = 1000, med_endDate = None, med_createdAt = 1000, med_updatedAt = 1000 \<rparr>"

definition shipmentOf :: "string \<Rightarrow> string \<Rightarrow> shipment" where
  "shipmentOf i uid =
     \<lparr> sh_id = i, sh_userId = uid,
       sh_items = [\<lparr> si_name = ''Pen'', si_quantity = 4, si_price = None \<rparr>],
       sh_status = ''pending'', sh_trackingNumber = None, sh_shippedAt = None,
       sh_deliveredAt = None, sh_createdAt = 1000, sh_updatedAt = 1000 \<rparr>"

definition demoStore :: store where
  "demoStore =
     \<lparr> users = [alice],
       weightEntries =
         [entry ''64b000000000000000000f01'' ''64b0000000000000000000a1'' 100,
          entry ''64b000000000000000000f02'' ''64b0000000000000000000b2'' 150,
          entry ''64b000000000000000000f03'' ''64b0000000000000000000a1'' 200,
          entry ''64b000000000000000000f04'' ''64b0000000000000000000a1'' 300],
       medications = [bobsMedication],
       shipments =
         [shipmentOf ''64b000000000000000000501'' ''64b0000000000000000000a1'',
          shipmentOf ''64b000000000000000000502'' ''64b0000000000000000000b2''] \<rparr>"


definition weighIn :: "int \<Rightarrow> weight_body" where
  "weighIn r = \<lparr> wb_weight = Some 180, wb_recordedAt = At r, wb_notes = None \<rparr>"

definition demoShipmentBody :: shipment_body where
  "demoShipmentBody =
     \<lparr> sb_userId = Some ''64b0000000000000000000a1'',
       sb_items = Some [\<lparr> si_name = ''Pen'', si_quantity = 4, si_price = None \<rparr>],
       sb_status = None, sb_trackingNumber = None, sb_shippedAt = Undefined,
       sb_deliveredAt = Undefined \<rparr>"

definition demoMedBody :: med_body where
  "demoMedBody =
     \<lparr> mb_userId = Some ''64b0000000000000000000b2'', mb_name = Some ''Semaglutide'',
       mb_dosage = Some ''1.0 mg'', mb_frequency = Some ''Weekly'', mb_startDate = At 1000,
       mb_endDate = Undefined \<rparr>"

text \<open>
  A store reached from the empty one by two creations of the same user, at the recorded
  instants 100 and 200.
\<close>

definition twoWeighIns :: store where
  "twoWeighIns =
     snd (createWeightEntry demoPlatform laterRequest (Some aliceUser) (weighIn 200)
            (snd (createWeightEntry demoPlatform demoRequest (Some aliceUser) (weighIn 100) emptyStore)))"

section \<open>Tokens: issuance and verification\<close>




section \<open>The middleware's two verification failures\<close>

text \<open>
  C2 (the code at the failing input). A correctly signed token whose \<open>exp\<close> has passed
  makes \<open>jwt.verify\<close> throw TokenExpiredError; \<open>handleAuthError\<close> tests
  \<open>instanceof JsonWebTokenError\<close> first, which holds for that error too, so the
  response is the invalid-token one, the very response a malformed token gets. The
  expired-token branch is never taken.
\<close>

theorem expired_token_reported_invalid:
  assumes "exp p = Some e" and "e \<le> t div 1000"
  shows "authenticateToken P cfg t (Some (Bearer (Signed p (secret cfg)))) s
           = authFailure P t 401 ''Invalid token'' ''The provided token is invalid or malformed''
         \<and> authenticateToken P cfg t (Some (Bearer (Signed p (secret cfg)))) s
           = authenticateToken P cfg t (Some (Bearer (Malformed ''garbage''))) s"
  using assms by (simp add: authenticateToken_def handleAuthError_def)

theorem expired_token_reported_invalid_witness:
  "authenticateToken demoPlatform demoConfig 3600000
       (Some (Bearer (Signed expiredPayload (secret demoConfig)))) demoStore
     = Reject 401 (JObj [(''success'', JBool False), (''error'', JStr ''Invalid token''),
                         (''message'', JStr ''The provided token is invalid or malformed''),
                         (''timestamp'', JStr ''2024-01-01T00:00:00.000Z'')])"
proof -
  have h1: "exp expiredPayload = Some 3600" by (simp add: expiredPayload_def)
  have h2: "(3600::int) \<le> 3600000 div 1000" by simp
  show ?thesis
    using expired_token_reported_invalid [OF h1 h2, of demoPlatform demoConfig demoStore]
    by (simp add: authFailure_def demoPlatform_def)
qed

section \<open>Token durations\<close>

lemma getTokenExpiration_malformed:
  assumes "d = [] \<or> last d \<notin> set ''smhd'' \<or> parseInt (butlast d) = None"
  shows "\<exists>e. getTokenExpiration P t d = Inl e"
  using assms
  by (auto simp: getTokenExpiration_def parseExpiration_def Let_def split: sum.splits option.splits)

lemma authResponse_malformed:
  assumes "expiresIn cfg = [] \<or> last (expiresIn cfg) \<notin> set ''smhd''
           \<or> parseInt (butlast (expiresIn cfg)) = None"
  shows "authResponse P cfg t ob \<noteq> Inr x"
proof -
  from getTokenExpiration_malformed [OF assms]
  obtain e where "getTokenExpiration P t (expiresIn cfg) = Inl e"
    by blast
  then show ?thesis
    by (simp add: authResponse_def Let_def split: sum.splits)
qed

text \<open>
  C8 (counterexample). The duration \<open>1x\<close> passes the startup schema, and a login with
  the right password then fails at runtime.
\<close>

theorem malformed_duration_accepted_at_startup_counterexample:
  "envSchema \<lparr> JWT_SECRET = Some ''0123456789abcdef0123456789abcdef'',
                JWT_EXPIRES_IN = Some ''1x'', REFRESH_TOKEN_EXPIRES_IN = None \<rparr>
     = Inr (demoConfig\<lparr> expiresIn := ''1x'' \<rparr>)
   \<and> login demoPlatform (demoConfig\<lparr> expiresIn := ''1x'' \<rparr>) demoRequest
        \<lparr> lb_email = ''alice@example.com'', lb_password = ''Secret123!'' \<rparr> demoStore
     = Next (Error ''expiresIn should be a number of seconds or string representing a timespan'')
   \<and> getTokenExpiration demoPlatform 5000 ''1x'' = Inl (Error ''Invalid expiration format: 1x'')"
  by (simp add: envSchema_def demoConfig_def login_def findUserByEmail_def demoStore_def alice_def
      toLowerCase_def trim_def isWhiteSpace_def demoPlatform_def authResponse_def
      generateAccessToken_def jwt_sign_def demoRequest_def getTokenExpiration_def
      parseExpiration_def)

text \<open>
  C8 (amended). The startup schema accepts every string as a token duration (only the
  secret must be non-empty). When the access-token duration is empty, ends in a
  character other than s, m, h, d, or has no number before the unit, no register, login
  or refresh request is answered: each one throws at runtime.
\<close>

theorem malformed_duration_fails_at_runtime:
  assumes "expiresIn cfg = [] \<or> last (expiresIn cfg) \<notin> set ''smhd''
           \<or> parseInt (butlast (expiresIn cfg)) = None"
  shows "envSchema \<lparr> JWT_SECRET = Some (c # cs), JWT_EXPIRES_IN = Some (expiresIn cfg),
                     REFRESH_TOKEN_EXPIRES_IN = Some (refreshExpiresIn cfg) \<rparr>
           = Inr \<lparr> secret = c # cs, expiresIn = expiresIn cfg, refreshExpiresIn = refreshExpiresIn cfg \<rparr>
         \<and> threw (fst (register P cfg rq rb s))
         \<and> threw (login P cfg rq lb s)
         \<and> threw (refreshToken P cfg rq tok s)"
proof -
  note a = authResponse_malformed [OF assms]
  have r: "threw (fst (register P cfg rq rb s))"
    by (auto simp: register_def Let_def a split: option.splits sum.splits)
  have l: "threw (login P cfg rq lb s)"
    by (auto simp: login_def a split: option.splits sum.splits)
  have f: "threw (refreshToken P cfg rq tok s)"
    by (auto simp: refreshToken_def a split: sum.splits option.splits)
  show ?thesis using r l f by (simp add: envSchema_def)
qed

theorem malformed_duration_fails_at_runtime_witness:
  "threw (fst (register demoPlatform (demoConfig\<lparr> expiresIn := ''xh'' \<rparr>) demoRequest
       \<lparr> rb_email = ''carol@example.com'', rb_password = ''Secret123!'', rb_name = ''Carol'',
         rb_dob = Some 0, rb_role = None \<rparr> demoStore))
   \<and> threw (login demoPlatform (demoConfig\<lparr> expiresIn := ''xh'' \<rparr>) demoRequest
       \<lparr> lb_email = ''alice@example.com'', lb_password = ''Secret123!'' \<rparr> demoStore)
   \<and> threw (refreshToken demoPlatform (demoConfig\<lparr> expiresIn := ''xh'' \<rparr>) demoRequest
       (Some (Signed expiredPayload (secret demoConfig))) demoStore)"
proof -
  have h: "expiresIn (demoConfig\<lparr> expiresIn := ''xh'' \<rparr>) = []
           \<or> last (expiresIn (demoConfig\<lparr> expiresIn := ''xh'' \<rparr>)) \<notin> set ''smhd''
           \<or> parseInt (butlast (expiresIn (demoConfig\<lparr> expiresIn := ''xh'' \<rparr>))) = None"
    by (simp add: parseInt_def isWhiteSpace_def digitOf_def)
  from malformed_duration_fails_at_runtime [OF h]
  show ?thesis by blast
qed

section \<open>Refresh with an access token\<close>





section \<open>Store lemmas\<close>

lemma find_none_append:
  "find p xs = None \<Longrightarrow> find p (xs @ ys) = find p ys"
  by (induction xs) (auto split: if_splits)

lemma filter_none:
  "find p xs = None \<Longrightarrow> filter p xs = []"
  by (induction xs) (auto split: if_splits)

lemma find_in_set: "find p xs = Some x \<Longrightarrow> x \<in> set xs"
  by (induction xs) (auto split: if_splits)


lemma find_distinct:
  "distinct (map f xs) \<Longrightarrow> x \<in> set xs \<Longrightarrow> p x \<Longrightarrow> (\<forall>y\<in>set xs. p y \<longrightarrow> f y = f x)
   \<Longrightarrow> find p xs = Some x"
proof (induction xs)
  case Nil
  then show ?case by simp
next
  case (Cons a xs)
  show ?case
  proof (cases "a = x")
    case True
    with Cons.prems(3) show ?thesis by simp
  next
    case False
    with Cons.prems(2) have xin: "x \<in> set xs" by simp
    have "\<not> p a"
    proof
      assume "p a"
      with Cons.prems(4) have "f a = f x" by simp
      moreover from xin have "f x \<in> f ` set xs" by blast
      moreover from Cons.prems(1) have "f a \<notin> f ` set xs" by simp
      ultimately show False by simp
    qed
    moreover from Cons.prems(1) have "distinct (map f xs)" by simp
    moreover from Cons.prems(4) have "\<forall>y\<in>set xs. p y \<longrightarrow> f y = f x" by simp
    ultimately have "find p xs = Some x"
      using Cons.IH xin Cons.prems(3) by blast
    with \<open>\<not> p a\<close> show ?thesis by simp
  qed
qed

lemma updateFirst_keeps:
  "x \<in> set xs \<Longrightarrow> \<not> p x \<Longrightarrow> x \<in> set (updateFirst p f xs)"
  by (induction xs) auto

lemma updateFirst_puts:
  "x \<in> set xs \<Longrightarrow> p x \<Longrightarrow> c \<in> set (updateFirst p (\<lambda>e. c) xs)"
  by (induction xs) auto

lemma unchanged_recordedAt:
  fixes e :: weight_entry
  shows "e\<lparr> we_recordedAt := r, we_notes := n \<rparr> = e \<Longrightarrow> we_recordedAt e = r"
  by (drule arg_cong [where f = we_recordedAt]) simp

section \<open>Weight entries: the duplicate guard\<close>

text \<open>
  C6. For an authenticated caller and a recorded instant \<open>r\<close> at which the caller has
  no entry, creating an entry (with a weight that passes the schema) answers 201 and
  appends it; any further creation by the same caller at the same instant answers 409
  and leaves the store as it is, so the store holds exactly the first entry for that
  caller and instant.
\<close>

theorem duplicate_weight_entry_rejected:
  fixes s :: store
  defines "saved rq uid w r body \<equiv>
     \<lparr> we_id = newId rq, we_userId = uid, we_weight = w, we_recordedAt = r,
       we_notes = wb_notes body, we_createdAt = now rq, we_updatedAt = now rq \<rparr>"
  assumes caller: "callerId user = Some uid"
    and valid: "isValidObjectId P uid"
    and date1: "wb_recordedAt body = At r"
    and weight1: "wb_weight body = Some w" "0 \<le> w"
    and date2: "wb_recordedAt body' = At r"
    and absent: "find (\<lambda>e. we_userId e = uid \<and> we_recordedAt e = r) (weightEntries s) = None"
  shows "createWeightEntry P rq user body s
           = (weightReply P (now rq) 201 True ''Weight entry created successfully''
                (Some (weightEntryJSON P (saved rq uid w r body))),
              s\<lparr> weightEntries := weightEntries s @ [saved rq uid w r body] \<rparr>)
         \<and> createWeightEntry P rq' user body' (snd (createWeightEntry P rq user body s))
           = (weightReply P (now rq') 409 False ''Weight entry already exists for this date'' None,
              snd (createWeightEntry P rq user body s))
         \<and> filter (\<lambda>e. we_userId e = uid \<and> we_recordedAt e = r)
              (weightEntries (snd (createWeightEntry P rq user body s)))
           = [saved rq uid w r body]"
proof -
  let ?e = "saved rq uid w r body"
  let ?s' = "s\<lparr> weightEntries := weightEntries s @ [?e] \<rparr>"
  have first: "createWeightEntry P rq user body s
           = (weightReply P (now rq) 201 True ''Weight entry created successfully''
                (Some (weightEntryJSON P ?e)), ?s')"
    using caller valid date1 weight1 absent
    by (simp add: createWeightEntry_def saved_def Let_def)
  have hit: "find (\<lambda>e. we_userId e = uid \<and> we_recordedAt e = r) (weightEntries ?s') = Some ?e"
    using absent by (simp add: find_none_append saved_def)
  have second: "createWeightEntry P rq' user body' ?s'
           = (weightReply P (now rq') 409 False ''Weight entry already exists for this date'' None, ?s')"
    using caller valid date2 hit
    by (simp add: createWeightEntry_def)
  have only: "filter (\<lambda>e. we_userId e = uid \<and> we_recordedAt e = r) (weightEntries ?s') = [?e]"
    using absent by (simp add: filter_none saved_def)
  have snd1: "snd (createWeightEntry P rq user body s) = ?s'"
    by (simp only: first snd_conv)
  show ?thesis
    unfolding snd1 using first second only by blast
qed

theorem duplicate_weight_entry_rejected_witness:
  "statusOf (fst (createWeightEntry demoPlatform demoRequest (Some aliceUser) (weighIn 500) demoStore))
     = Some 201
   \<and> statusOf (fst (createWeightEntry demoPlatform laterRequest (Some aliceUser) (weighIn 500)
        (snd (createWeightEntry demoPlatform demoRequest (Some aliceUser) (weighIn 500) demoStore))))
     = Some 409
   \<and> map we_id (filter (\<lambda>e. we_userId e = ''64b0000000000000000000a1'' \<and> we_recordedAt e = 500)
        (weightEntries (snd (createWeightEntry demoPlatform laterRequest (Some aliceUser) (weighIn 500)
           (snd (createWeightEntry demoPlatform demoRequest (Some aliceUser) (weighIn 500) demoStore))))))
     = [''64b0000000000000000000e1'']"
proof -
  have caller: "callerId (Some aliceUser) = Some ''64b0000000000000000000a1''"
    by (simp add: callerId_def aliceUser_def)
  have valid: "isValidObjectId demoPlatform ''64b0000000000000000000a1''"
    by (simp add: demoPlatform_def)
  have date: "wb_recordedAt (weighIn 500) = At 500"
    by (simp add: weighIn_def)
  have weight: "wb_weight (weighIn 500) = Some 180" "(0::rat) \<le> 180"
    by (simp_all add: weighIn_def)
  have absent: "find (\<lambda>e. we_userId e = ''64b0000000000000000000a1'' \<and> we_recordedAt e = 500)
                  (weightEntries demoStore) = None"
    by (simp add: demoStore_def entry_def)
  note t = duplicate_weight_entry_rejected [OF caller valid date weight date absent,
      of demoRequest laterRequest]
  note t1 = t [THEN conjunct1]
  note t2 = t [THEN conjunct2, THEN conjunct1]
  note t3 = t [THEN conjunct2, THEN conjunct2]
  have a: "statusOf (fst (createWeightEntry demoPlatform demoRequest (Some aliceUser)
                     (weighIn 500) demoStore)) = Some 201"
    by (simp only: t1 fst_conv) (simp add: weightReply_def)
  have b: "statusOf (fst (createWeightEntry demoPlatform laterRequest (Some aliceUser) (weighIn 500)
        (snd (createWeightEntry demoPlatform demoRequest (Some aliceUser) (weighIn 500) demoStore))))
     = Some 409"
    by (simp only: t2 fst_conv) (simp add: weightReply_def)
  have c: "map we_id (filter (\<lambda>e. we_userId e = ''64b0000000000000000000a1'' \<and> we_recordedAt e = 500)
        (weightEntries (snd (createWeightEntry demoPlatform laterRequest (Some aliceUser) (weighIn 500)
           (snd (createWeightEntry demoPlatform demoRequest (Some aliceUser) (weighIn 500) demoStore))))))
     = [''64b0000000000000000000e1'']"
    by (simp only: t2 snd_conv t3) (simp add: demoRequest_def)
  from a b c show ?thesis by blast
qed

section \<open>Weight entries: update and the recorded instant\<close>

text \<open>
  C10. \<open>updateWeightEntry\<close> makes no duplicate check. In a store with distinct ids
  that holds two entries \<open>e1\<close> and \<open>e2\<close> of the caller, setting the recorded instant of
  \<open>e2\<close> to that of \<open>e1\<close> answers 200, and the store then holds two different entries of
  the same user with the same recorded instant. The example starts from a store reached
  by two creations from the empty store.
\<close>

theorem update_admits_duplicate_timestamp:
  fixes e1 e2 :: weight_entry
  defines "patched body t e \<equiv>
     (let a = e\<lparr> we_recordedAt := (case wb_recordedAt body of At r \<Rightarrow> r | _ \<Rightarrow> we_recordedAt e),
                   we_notes := (case wb_notes body of None \<Rightarrow> we_notes e | Some x \<Rightarrow> Some x) \<rparr>
      in if a = e then e else a\<lparr> we_updatedAt := t \<rparr>)"
  assumes caller: "callerId user = Some uid"
    and valid: "isValidObjectId P uid" "isValidObjectId P (we_id e2)" "we_id e2 \<noteq> []"
    and stored: "e1 \<in> set (weightEntries s)" "e2 \<in> set (weightEntries s)"
    and owner: "we_userId e1 = uid" "we_userId e2 = uid"
    and ids: "distinct (map we_id (weightEntries s))" "we_id e1 \<noteq> we_id e2"
    and patch: "wb_recordedAt body = At (we_recordedAt e1)" "wb_weight body = None" "0 \<le> we_weight e2"
  shows "updateWeightEntry P t user (we_id e2) body s
           = (weightReply P t 200 True ''Weight entry updated successfully''
                (Some (weightEntryJSON P (patched body t e2))),
              s\<lparr> weightEntries :=
                   updateFirst (\<lambda>e. we_id e = we_id e2) (\<lambda>e. patched body t e2) (weightEntries s) \<rparr>)
         \<and> e1 \<in> set (weightEntries (snd (updateWeightEntry P t user (we_id e2) body s)))
         \<and> patched body t e2 \<in> set (weightEntries (snd (updateWeightEntry P t user (we_id e2) body s)))
         \<and> we_id e1 \<noteq> we_id (patched body t e2)
         \<and> we_userId e1 = we_userId (patched body t e2)
         \<and> we_recordedAt e1 = we_recordedAt (patched body t e2)"
proof -
  have f: "findOwnEntry (we_id e2) uid s = Some e2"
    unfolding findOwnEntry_def
    by (rule find_distinct [where f = we_id]) (use stored owner ids in auto)
  show ?thesis
    using caller valid patch f stored owner ids
    by (auto simp: updateWeightEntry_def Let_def updateFirst_keeps updateFirst_puts patched_def
        dest: unchanged_recordedAt)
qed

lemma twoWeighIns_entries:
  "weightEntries twoWeighIns =
     [\<lparr> we_id = ''64b0000000000000000000e1'', we_userId = ''64b0000000000000000000a1'',
        we_weight = 180, we_recordedAt = 100, we_notes = None,
        we_createdAt = 5000, we_updatedAt = 5000 \<rparr>,
      \<lparr> we_id = ''64b0000000000000000000e2'', we_userId = ''64b0000000000000000000a1'',
        we_weight = 180, we_recordedAt = 200, we_notes = None,
        we_createdAt = 9000, we_updatedAt = 9000 \<rparr>]"
  by (simp add: twoWeighIns_def createWeightEntry_def callerId_def aliceUser_def demoPlatform_def
      weighIn_def emptyStore_def demoRequest_def laterRequest_def Let_def)

theorem update_admits_duplicate_timestamp_witness:
  "statusOf (fst (updateWeightEntry demoPlatform 9500 (Some aliceUser) ''64b0000000000000000000e2''
       \<lparr> wb_weight = None, wb_recordedAt = At 100, wb_notes = None \<rparr> twoWeighIns)) = Some 200
   \<and> map (\<lambda>e. (we_id e, we_userId e, we_recordedAt e))
       (weightEntries (snd (updateWeightEntry demoPlatform 9500 (Some aliceUser) ''64b0000000000000000000e2''
          \<lparr> wb_weight = None, wb_recordedAt = At 100, wb_notes = None \<rparr> twoWeighIns)))
     = [(''64b0000000000000000000e1'', ''64b0000000000000000000a1'', 100),
        (''64b0000000000000000000e2'', ''64b0000000000000000000a1'', 100)]"
proof -
  let ?e1 = "\<lparr> we_id = ''64b0000000000000000000e1'', we_userId = ''64b0000000000000000000a1'',
        we_weight = 180, we_recordedAt = 100, we_notes = None,
        we_createdAt = 5000, we_updatedAt = 5000 \<rparr>"
  let ?e2 = "\<lparr> we_id = ''64b0000000000000000000e2'', we_userId = ''64b0000000000000000000a1'',
        we_weight = 180, we_recordedAt = 200, we_notes = None,
        we_createdAt = 9000, we_updatedAt = 9000 \<rparr>"
  let ?body = "\<lparr> wb_weight = None, wb_recordedAt = At 100, wb_notes = None \<rparr>"
  have caller: "callerId (Some aliceUser) = Some ''64b0000000000000000000a1''"
    by (simp add: callerId_def aliceUser_def)
  have valid: "isValidObjectId demoPlatform ''64b0000000000000000000a1''"
      "isValidObjectId demoPlatform (we_id ?e2)" "we_id ?e2 \<noteq> []"
    by (simp_all add: demoPlatform_def)
  have stored: "?e1 \<in> set (weightEntries twoWeighIns)" "?e2 \<in> set (weightEntries twoWeighIns)"
    by (simp_all add: twoWeighIns_entries)
  have owner: "we_userId ?e1 = ''64b0000000000000000000a1''" "we_userId ?e2 = ''64b0000000000000000000a1''"
    by simp_all
  have ids: "distinct (map we_id (weightEntries twoWeighIns))" "we_id ?e1 \<noteq> we_id ?e2"
    by (simp_all add: twoWeighIns_entries)
  have patch: "wb_recordedAt ?body = At (we_recordedAt ?e1)" "wb_weight ?body = None" "0 \<le> we_weight ?e2"
    by simp_all
  note t = update_admits_duplicate_timestamp [OF caller valid stored owner ids patch, of 9500]
  from t have u: "updateWeightEntry demoPlatform 9500 (Some aliceUser) ''64b0000000000000000000e2'' ?body twoWeighIns
      = (weightReply demoPlatform 9500 200 True ''Weight entry updated successfully''
           (Some (weightEntryJSON demoPlatform (?e2\<lparr> we_recordedAt := 100, we_updatedAt := 9500 \<rparr>))),
         twoWeighIns\<lparr> weightEntries :=
            updateFirst (\<lambda>e. we_id e = ''64b0000000000000000000e2'')
              (\<lambda>e. ?e2\<lparr> we_recordedAt := 100, we_updatedAt := 9500 \<rparr>) (weightEntries twoWeighIns) \<rparr>)"
    by simp
  show ?thesis
    unfolding u by (simp add: weightReply_def twoWeighIns_entries)
qed


section \<open>Ownership on read-one, update and delete\<close>




section \<open>Ownership on create\<close>

text \<open>
  C4 (counterexample). Two shipment creations whose bodies differ in \<open>userId\<close> only
  persist two different owners.
\<close>

theorem shipment_owner_from_body_counterexample:
  "map sh_userId (shipments (snd (createShipment demoPlatform demoRequest demoShipmentBody emptyStore)))
     = [''64b0000000000000000000a1'']
   \<and> map sh_userId (shipments (snd (createShipment demoPlatform demoRequest
        (demoShipmentBody\<lparr> sb_userId := Some ''64b0000000000000000000b2'' \<rparr>) emptyStore)))
     = [''64b0000000000000000000b2'']"
  by (simp add: createShipment_def demoPlatform_def demoShipmentBody_def emptyStore_def validItem_def
      trim_def isWhiteSpace_def Let_def)

lemma createMedication_ignores_body_userId:
  "createMedication P rq user (body\<lparr> mb_userId := x \<rparr>) s = createMedication P rq user body s"
  by (simp add: createMedication_def)

lemma createMedication_owner:
  "statusOf (fst (createMedication P rq user body s)) = Some 201 \<Longrightarrow>
   \<exists>m. medications (snd (createMedication P rq user body s)) = medications s @ [m]
        \<and> med_userId m = ru_id user"
  by (auto simp: createMedication_def Let_def split: option.splits date_input.splits if_splits)

lemma createShipment_owner:
  "statusOf (fst (createShipment P rq body s)) = Some 201 \<Longrightarrow>
   \<exists>sh. shipments (snd (createShipment P rq body s)) = shipments s @ [sh]
        \<and> sb_userId body = Some (sh_userId sh)"
  by (auto simp: createShipment_def Let_def shipmentFailure_def split: option.splits if_splits)

text \<open>
  C4 (amended). Creating a medication does not depend on a \<open>userId\<close> in the body at
  all, and a created medication (201) is appended with the caller's id as its owner.
  Creating a shipment takes the owner from the body: a created shipment (201) is
  appended with the body's \<open>userId\<close>.
\<close>

theorem medication_owner_is_caller_shipment_owner_is_body:
  "createMedication P rq user (mb\<lparr> mb_userId := x \<rparr>) s = createMedication P rq user mb s
   \<and> (statusOf (fst (createMedication P rq user mb s)) = Some 201 \<longrightarrow>
        (\<exists>m. medications (snd (createMedication P rq user mb s)) = medications s @ [m]
             \<and> med_userId m = ru_id user))
   \<and> (statusOf (fst (createShipment P rq sb s)) = Some 201 \<longrightarrow>
        (\<exists>sh. shipments (snd (createShipment P rq sb s)) = shipments s @ [sh]
             \<and> sb_userId sb = Some (sh_userId sh)))"
  using createMedication_ignores_body_userId createMedication_owner createShipment_owner
  by blast

theorem medication_owner_is_caller_shipment_owner_is_body_witness:
  "createMedication demoPlatform demoRequest aliceUser (demoMedBody\<lparr> mb_userId := None \<rparr>) emptyStore
     = createMedication demoPlatform demoRequest aliceUser demoMedBody emptyStore
   \<and> statusOf (fst (createMedication demoPlatform demoRequest aliceUser demoMedBody emptyStore)) = Some 201
   \<and> map med_userId (medications (snd (createMedication demoPlatform demoRequest aliceUser demoMedBody emptyStore)))
     = [''64b0000000000000000000a1'']
   \<and> mb_userId demoMedBody = Some ''64b0000000000000000000b2''
   \<and> statusOf (fst (createShipment demoPlatform demoRequest demoShipmentBody emptyStore)) = Some 201
   \<and> map (\<lambda>sh. Some (sh_userId sh))
        (shipments (snd (createShipment demoPlatform demoRequest demoShipmentBody emptyStore)))
     = [sb_userId demoShipmentBody]"
proof -
  note t = medication_owner_is_caller_shipment_owner_is_body
    [where P = demoPlatform and rq = demoRequest and user = aliceUser and mb = demoMedBody
       and x = None and s = emptyStore and sb = demoShipmentBody]
  have m201: "statusOf (fst (createMedication demoPlatform demoRequest aliceUser demoMedBody emptyStore))
                = Some 201"
    by (simp add: createMedication_def demoPlatform_def aliceUser_def demoMedBody_def required_def
        trim_def isWhiteSpace_def Let_def)
  have s201: "statusOf (fst (createShipment demoPlatform demoRequest demoShipmentBody emptyStore)) = Some 201"
    by (simp add: createShipment_def demoPlatform_def demoShipmentBody_def validItem_def
        trim_def isWhiteSpace_def Let_def)
  from t m201 obtain m where
    m: "medications (snd (createMedication demoPlatform demoRequest aliceUser demoMedBody emptyStore))
          = medications emptyStore @ [m]" "med_userId m = ru_id aliceUser"
    by blast
  from t s201 obtain sh where
    sh: "shipments (snd (createShipment demoPlatform demoRequest demoShipmentBody emptyStore))
          = shipments emptyStore @ [sh]" "sb_userId demoShipmentBody = Some (sh_userId sh)"
    by blast
  have a: "map med_userId (medications (snd (createMedication demoPlatform demoRequest aliceUser demoMedBody emptyStore)))
     = [''64b0000000000000000000a1'']"
    using m by (simp add: emptyStore_def aliceUser_def)
  have b: "map (\<lambda>sh. Some (sh_userId sh))
        (shipments (snd (createShipment demoPlatform demoRequest demoShipmentBody emptyStore)))
     = [sb_userId demoShipmentBody]"
    using sh by (simp add: emptyStore_def)
  have c: "mb_userId demoMedBody = Some ''64b0000000000000000000b2''"
    by (simp add: demoMedBody_def)
  from t m201 s201 a b c show ?thesis by blast
qed


section \<open>Listing and pagination\<close>













section \<open>The password hash and the responses\<close>

lemma find_rehash:
  assumes "\<And>u h. p (u\<lparr> u_passwordHash := h \<rparr>) = p u"
  shows "find p (map (\<lambda>u. u\<lparr> u_passwordHash := g u \<rparr>) xs)
         = map_option (\<lambda>u. u\<lparr> u_passwordHash := g u \<rparr>) (find p xs)"
  by (induction xs) (simp_all add: assms)

lemma findUserByEmail_rehash:
  "findUserByEmail (rehash g s) e
     = map_option (\<lambda>u. u\<lparr> u_passwordHash := g u \<rparr>) (findUserByEmail s e)"
  by (simp add: findUserByEmail_def rehash_def find_rehash)

lemma findUserById_rehash:
  "findUserById P (rehash g s) i
     = map_sum id (map_option (\<lambda>u. u\<lparr> u_passwordHash := g u \<rparr>)) (findUserById P s i)"
  by (simp add: findUserById_def rehash_def find_rehash)

lemma scrub_rehash:
  "deletePasswordHash (toObject (u\<lparr> u_passwordHash := h \<rparr>)) = deletePasswordHash (toObject u)"
  by (simp add: deletePasswordHash_def toObject_def)

lemma apiUser_keys:
  "jsonKeys (apiUserJSON u) = [''id'', ''email'', ''firstName'', ''lastName'', ''dateOfBirth'',
      ''enrollmentDate'', ''createdAt'', ''updatedAt'', ''role'']"
  by (simp add: apiUserJSON_def)

lemma authResponse_keys:
  "authResponse P cfg t ob = Inr a \<Longrightarrow> ''passwordHash'' \<notin> set (jsonKeys a)"
  by (auto simp: authResponse_def Let_def apiUser_keys split: sum.splits)

lemma sendSuccess_keys:
  "''passwordHash'' \<notin> set (jsonKeys dat) \<Longrightarrow>
   ''passwordHash'' \<notin> set (jsonKeys (bodyOf (sendSuccess P t dat msg st)))"
  by (simp add: sendSuccess_def)

lemma register_keys: "''passwordHash'' \<notin> set (jsonKeys (bodyOf (fst (register P cfg rq rb s))))"
  by (auto simp: register_def Let_def split: option.splits sum.splits
      dest!: authResponse_keys intro!: sendSuccess_keys[simplified])

lemma login_keys: "''passwordHash'' \<notin> set (jsonKeys (bodyOf (login P cfg rq lb s)))"
  by (auto simp: login_def Let_def sendSuccess_def split: option.splits sum.splits
      dest!: authResponse_keys)

lemma refresh_keys: "''passwordHash'' \<notin> set (jsonKeys (bodyOf (refreshToken P cfg rq tok s)))"
  by (auto simp: refreshToken_def Let_def sendSuccess_def split: option.splits sum.splits
      dest!: authResponse_keys)

lemma profile_keys: "''passwordHash'' \<notin> set (jsonKeys (bodyOf (getProfile P rq user s)))"
  by (auto simp: getProfile_def Let_def sendSuccess_def apiUser_keys split: option.splits sum.splits)

lemma bcrypt_irrelevant:
  "transformUserForAPI (P\<lparr> bcryptHash := h \<rparr>) ob = transformUserForAPI P ob"
  "transformUserForAPI (P\<lparr> bcryptCompare := c \<rparr>) ob = transformUserForAPI P ob"
  "generateAccessToken (P\<lparr> bcryptHash := h \<rparr>) cfg au t = generateAccessToken P cfg au t"
  "generateAccessToken (P\<lparr> bcryptCompare := c \<rparr>) cfg au t = generateAccessToken P cfg au t"
  "generateRefreshToken (P\<lparr> bcryptHash := h \<rparr>) cfg au t = generateRefreshToken P cfg au t"
  "generateRefreshToken (P\<lparr> bcryptCompare := c \<rparr>) cfg au t = generateRefreshToken P cfg au t"
  "getTokenExpiration (P\<lparr> bcryptHash := h \<rparr>) t d = getTokenExpiration P t d"
  "getTokenExpiration (P\<lparr> bcryptCompare := c \<rparr>) t d = getTokenExpiration P t d"
  "sendSuccess (P\<lparr> bcryptHash := h \<rparr>) t dat msg st = sendSuccess P t dat msg st"
  "sendSuccess (P\<lparr> bcryptCompare := c \<rparr>) t dat msg st = sendSuccess P t dat msg st"
  by (simp_all add: transformUserForAPI_def generateAccessToken_def generateRefreshToken_def
      jwt_sign_def getTokenExpiration_def sendSuccess_def split: sum.splits option.splits)

lemma authResponse_bcrypt:
  "authResponse (P\<lparr> bcryptHash := h \<rparr>) cfg t ob = authResponse P cfg t ob"
  "authResponse (P\<lparr> bcryptCompare := c \<rparr>) cfg t ob = authResponse P cfg t ob"
  by (simp_all add: authResponse_def bcrypt_irrelevant Let_def split: sum.splits)

lemma register_indep:
  "fst (register (P\<lparr> bcryptHash := h \<rparr>) cfg rq rb (rehash g s)) = fst (register P cfg rq rb s)"
  by (auto simp: register_def Let_def findUserByEmail_rehash authResponse_bcrypt bcrypt_irrelevant
        deletePasswordHash_def toObject_def
      split: option.splits sum.splits)

lemma refresh_indep: "refreshToken P cfg rq tok (rehash g s) = refreshToken P cfg rq tok s"
  by (auto simp: refreshToken_def findUserById_rehash scrub_rehash split: option.splits sum.splits)

lemma profile_indep: "getProfile P rq user (rehash g s) = getProfile P rq user s"
  by (auto simp: getProfile_def findUserById_rehash scrub_rehash split: option.splits sum.splits)

lemma login_indep:
  assumes "\<forall>u\<in>set (users s). c (lb_password lb) (g u) = bcryptCompare P (lb_password lb) (u_passwordHash u)"
  shows "login (P\<lparr> bcryptCompare := c \<rparr>) cfg rq lb (rehash g s) = login P cfg rq lb s"
proof (cases "findUserByEmail s (toLowerCase (trim (lb_email lb)))")
  case None
  then show ?thesis by (simp add: login_def findUserByEmail_rehash)
next
  case (Some u)
  then have "u \<in> set (users s)" by (auto simp: findUserByEmail_def dest: find_in_set)
  with assms have "c (lb_password lb) (g u) = bcryptCompare P (lb_password lb) (u_passwordHash u)"
    by blast
  with Some show ?thesis
    by (simp add: login_def findUserByEmail_rehash scrub_rehash authResponse_bcrypt bcrypt_irrelevant
        split: sum.splits)
qed

text \<open>
  C7. No response body of register, login, refresh or get-profile has a property named
  \<open>passwordHash\<close>, at any depth. And no outcome of these operations depends on the
  stored hashes: replace every stored hash (and the hashing function) by anything else
  and register, refresh and get-profile give the same outcome; so does login, as long
  as the password comparison gives the same verdicts.
\<close>

theorem password_hash_never_in_response:
  "''passwordHash'' \<notin> set (jsonKeys (bodyOf (fst (register P cfg rq rb s))))
   \<and> ''passwordHash'' \<notin> set (jsonKeys (bodyOf (login P cfg rq lb s)))
   \<and> ''passwordHash'' \<notin> set (jsonKeys (bodyOf (refreshToken P cfg rq tok s)))
   \<and> ''passwordHash'' \<notin> set (jsonKeys (bodyOf (getProfile P rq user s)))
   \<and> fst (register (P\<lparr> bcryptHash := h \<rparr>) cfg rq rb (rehash g s)) = fst (register P cfg rq rb s)
   \<and> ((\<forall>u\<in>set (users s). c (lb_password lb) (g u) = bcryptCompare P (lb_password lb) (u_passwordHash u))
        \<longrightarrow> login (P\<lparr> bcryptCompare := c \<rparr>) cfg rq lb (rehash g s) = login P cfg rq lb s)
   \<and> refreshToken P cfg rq tok (rehash g s) = refreshToken P cfg rq tok s
   \<and> getProfile P rq user (rehash g s) = getProfile P rq user s"
proof (intro conjI impI)
  show "''passwordHash'' \<notin> set (jsonKeys (bodyOf (fst (register P cfg rq rb s))))"
    by (rule register_keys)
  show "''passwordHash'' \<notin> set (jsonKeys (bodyOf (login P cfg rq lb s)))"
    by (rule login_keys)
  show "''passwordHash'' \<notin> set (jsonKeys (bodyOf (refreshToken P cfg rq tok s)))"
    by (rule refresh_keys)
  show "''passwordHash'' \<notin> set (jsonKeys (bodyOf (getProfile P rq user s)))"
    by (rule profile_keys)
  show "fst (register (P\<lparr> bcryptHash := h \<rparr>) cfg rq rb (rehash g s)) = fst (register P cfg rq rb s)"
    by (rule register_indep)
  show "login (P\<lparr> bcryptCompare := c \<rparr>) cfg rq lb (rehash g s) = login P cfg rq lb s"
    if "\<forall>u\<in>set (users s). c (lb_password lb) (g u) = bcryptCompare P (lb_password lb) (u_passwordHash u)"
    using that by (rule login_indep)
  show "refreshToken P cfg rq tok (rehash g s) = refreshToken P cfg rq tok s"
    by (rule refresh_indep)
  show "getProfile P rq user (rehash g s) = getProfile P rq user s"
    by (rule profile_indep)
qed

theorem password_hash_never_in_response_witness:
  "statusOf (login demoPlatform demoConfig demoRequest
       \<lparr> lb_email = ''alice@example.com'', lb_password = ''Secret123!'' \<rparr> demoStore) = Some 200
   \<and> ''passwordHash'' \<notin> set (jsonKeys (bodyOf (login demoPlatform demoConfig demoRequest
       \<lparr> lb_email = ''alice@example.com'', lb_password = ''Secret123!'' \<rparr> demoStore)))
   \<and> login (demoPlatform\<lparr> bcryptCompare := (\<lambda>p h. True) \<rparr>) demoConfig demoRequest
       \<lparr> lb_email = ''alice@example.com'', lb_password = ''Secret123!'' \<rparr>
       (rehash (\<lambda>u. ''erased'') demoStore)
     = login demoPlatform demoConfig demoRequest
       \<lparr> lb_email = ''alice@example.com'', lb_password = ''Secret123!'' \<rparr> demoStore
   \<and> getProfile demoPlatform demoRequest (Some aliceUser) (rehash (\<lambda>u. ''erased'') demoStore)
     = getProfile demoPlatform demoRequest (Some aliceUser) demoStore"
proof -
  let ?lb = "\<lparr> lb_email = ''alice@example.com'', lb_password = ''Secret123!'' \<rparr>"
  have ok: "statusOf (login demoPlatform demoConfig demoRequest ?lb demoStore) = Some 200"
    by (simp add: login_def findUserByEmail_def demoStore_def alice_def toLowerCase_def trim_def
        isWhiteSpace_def demoPlatform_def authResponse_def generateAccessToken_def
        generateRefreshToken_def jwt_sign_def demoConfig_def getTokenExpiration_def
        parseExpiration_def parseInt_def digitOf_def demoRequest_def sendSuccess_def Let_def)
  have same: "\<forall>u\<in>set (users demoStore).
      (\<lambda>p h. True) (lb_password ?lb) ((\<lambda>u. ''erased'') u)
        = bcryptCompare demoPlatform (lb_password ?lb) (u_passwordHash u)"
    by (simp add: demoStore_def alice_def demoPlatform_def)
  note t = password_hash_never_in_response
    [where P = demoPlatform and cfg = demoConfig and rq = demoRequest and lb = ?lb
       and s = demoStore and c = "\<lambda>p h. True" and g = "\<lambda>u. ''erased''"
       and user = "Some aliceUser"]
  from t have keys: "''passwordHash'' \<notin> set (jsonKeys (bodyOf (login demoPlatform demoConfig demoRequest
       ?lb demoStore)))"
    by blast
  from t same have indep: "login (demoPlatform\<lparr> bcryptCompare := (\<lambda>p h. True) \<rparr>) demoConfig demoRequest
       ?lb (rehash (\<lambda>u. ''erased'') demoStore)
     = login demoPlatform demoConfig demoRequest ?lb demoStore"
    by blast
  from t have prof: "getProfile demoPlatform demoRequest (Some aliceUser) (rehash (\<lambda>u. ''erased'') demoStore)
     = getProfile demoPlatform demoRequest (Some aliceUser) demoStore"
    by blast
  from ok keys indep prof show ?thesis by blast
qed


end
